theory Spec2Isabelle
  imports Complex_Main
begin

section \<open>Python string operations used by FFBAnalysis.py\<close>

text \<open>
  Strings are lists of 8-bit characters, so the model covers ASCII names and headers.
  Only the letters a-z and A-Z are cased; every other character is left alone by
  \<open>upper\<close>, \<open>lower\<close> and \<open>title\<close>, as Python does for ASCII text.
\<close>

definition is_lower :: "char \<Rightarrow> bool" where
  "is_lower c = (97 \<le> (of_char c :: nat) \<and> (of_char c :: nat) \<le> 122)"

definition is_upper :: "char \<Rightarrow> bool" where
  "is_upper c = (65 \<le> (of_char c :: nat) \<and> (of_char c :: nat) \<le> 90)"

definition is_cased :: "char \<Rightarrow> bool" where
  "is_cased c = (is_lower c \<or> is_upper c)"

definition char_upper :: "char \<Rightarrow> char" where
  "char_upper c = (if is_lower c then char_of ((of_char c :: nat) - 32) else c)"

definition char_lower :: "char \<Rightarrow> char" where
  "char_lower c = (if is_upper c then char_of ((of_char c :: nat) + 32) else c)"

text \<open>\<^verbatim>\<open>s.upper()\<close>\<close>

definition upper :: "string \<Rightarrow> string" where
  "upper s = map char_upper s"

text \<open>
  \<^verbatim>\<open>s.title()\<close>: a cased character that follows a cased character is lowercased,
  any other cased character is uppercased. The flag is Python's
  \<^verbatim>\<open>previous_is_cased\<close>.
\<close>

fun title_from :: "bool \<Rightarrow> string \<Rightarrow> string" where
  "title_from previous_is_cased [] = []"
| "title_from previous_is_cased (c # cs) =
     (if previous_is_cased then char_lower c else char_upper c) # title_from (is_cased c) cs"

definition title :: "string \<Rightarrow> string" where
  "title s = title_from False s"

text \<open>\<^verbatim>\<open>s.replace(a, b)\<close> for one-character strings \<open>a\<close> and \<open>b\<close>.\<close>

definition replace_char :: "char \<Rightarrow> char \<Rightarrow> string \<Rightarrow> string" where
  "replace_char a b s = map (\<lambda>c. if c = a then b else c) s"

text \<open>
  \<^verbatim>\<open>s.split(' ', maxsplit=1)\<close>: one part when \<open>s\<close> has no space, otherwise the
  text before the first space and the whole text after it (either may be empty).
\<close>

definition split_once :: "string \<Rightarrow> string list" where
  "split_once s =
     (if CHR '' '' \<in> set s
      then [takeWhile (\<lambda>c. c \<noteq> CHR '' '') s, tl (dropWhile (\<lambda>c. c \<noteq> CHR '' '') s)]
      else [s])"


section \<open>Data model\<close>

text \<open>
  A cell of a data frame read by \<^verbatim>\<open>pd.read_csv\<close>: an empty field (NaN), a number
  (a numeric column's value, or text that \<^verbatim>\<open>float()\<close> accepts), or any other text,
  among it the marker \<^verbatim>\<open>'--'\<close> of the game logs. Python's floats are modelled by
  real numbers.
\<close>

datatype cell = NaN | Num real | Str string

text \<open>
  One game-log row. Of the twelve leading identity columns the code reads only
  Name, Season, Week and Year; \<open>stat\<close> gives the cell under each header from
  position 12 on.
\<close>

record row =
  Name :: string
  Season :: string
  Week :: int
  Year :: int
  stat :: "string \<Rightarrow> cell"

text \<open>
  A data frame: \<open>columns\<close> are the headers from position 12 on
  (\<^verbatim>\<open>list(df)[12:]\<close>), in order.
\<close>

record table =
  columns :: "string list"
  rows :: "row list"

text \<open>
  The exceptions the code can raise. \<open>ValueError_unpack\<close> is the failed unpacking of
  \<^verbatim>\<open>self.name.split(' ', maxsplit=1)\<close> into two names, \<open>NameError_not_loaded\<close> the
  explicit \<^verbatim>\<open>raise NameError('NFL data has not been loaded yet, ...')\<close>.
\<close>

datatype error =
    ValueError_unpack
  | ValueError_float
  | UnboundLocalError_df_single
  | AttributeError_dl_list
  | NameError_not_loaded
  | NameError_players
  | TypeError_missing_league_settings

abbreviation InvalidPlayerName :: error where
  "InvalidPlayerName \<equiv> ValueError_unpack"

abbreviation DataNotLoaded :: error where
  "DataNotLoaded \<equiv> NameError_not_loaded"


section \<open>LeagueSettings\<close>

text \<open>
  An instance is its \<^verbatim>\<open>__dict__\<close>: attribute names and values in insertion order,
  which is the order \<^verbatim>\<open>league_settings.__dict__.items()\<close> iterates in.
\<close>

type_synonym LeagueSettings = "(string \<times> real) list"

text \<open>\<^verbatim>\<open>self.key = v\<close>: a new attribute goes last, an old one keeps its place.\<close>

fun setattr :: "string \<Rightarrow> real \<Rightarrow> LeagueSettings \<Rightarrow> LeagueSettings" where
  "setattr key v [] = [(key, v)]"
| "setattr key v ((k, w) # d) = (if k = key then (k, v) # d else (k, w) # setattr key v d)"

text \<open>
  The constructor's assignments, the first of the source innermost (applied first).
\<close>

definition LeagueSettings_init :: LeagueSettings where
  "LeagueSettings_init =
     (setattr ''extra_point'' 1 \<circ>
      setattr ''fg_50_plus'' 5 \<circ>
      setattr ''fg_50'' 4 \<circ>
      setattr ''fg_40'' 3 \<circ>
      setattr ''fg_30'' 3 \<circ>
      setattr ''fg_20'' 3 \<circ>
      setattr ''tds_40_plus'' 0 \<circ>
      setattr ''yards_40_plus'' 0 \<circ>
      setattr ''offensive_fumble_return_tds'' 6 \<circ>
      setattr ''fumbles_lost'' (- 2) \<circ>
      setattr ''two_pt_conversions'' 2 \<circ>
      setattr ''receiving_tds'' 6 \<circ>
      setattr ''receiving_yards'' 0.1 \<circ>
      setattr ''receptions'' 0.5 \<circ>
      setattr ''rushing_tds'' 6 \<circ>
      setattr ''rushing_yards'' 0.1 \<circ>
      setattr ''interceptions'' (- 1) \<circ>
      setattr ''passing_tds'' 4 \<circ>
      setattr ''passing_yards'' 0.04) []"


section \<open>PlayerProfile\<close>

text \<open>
  \<open>league_points\<close> is \<open>None\<close> until \<open>CalculatePlayerPoints\<close> stores the frame of
  years and points, modelled as the list of its rows. The attributes player_id,
  current_status, years_played, number and position are set to None by the constructor
  and never read or written again; they are left out.
\<close>

record PlayerProfile =
  name :: string
  league_points :: "(int \<times> real) list option"

definition PlayerProfile_init :: "string \<Rightarrow> PlayerProfile" where
  "PlayerProfile_init n = \<lparr>name = n, league_points = None\<rparr>"

definition name_combo :: "string \<Rightarrow> string \<Rightarrow> string" where
  "name_combo first_name last_name = title last_name @ '', '' @ title first_name"

text \<open>\<^verbatim>\<open>name_combo.upper() in df_single['Name'].str.upper().values\<close>\<close>

definition name_check :: "string \<Rightarrow> table \<Rightarrow> bool" where
  "name_check nc df = (upper nc \<in> set (map (\<lambda>r. upper (Name r)) (rows df)))"

text \<open>
  The search loop. The second argument is the loop variable \<open>df_single\<close>: unbound
  (\<open>None\<close>) before the first iteration, afterwards the frame last visited. The loop
  has no \<^verbatim>\<open>else\<close> branch: when no frame passes the check it ends with the last frame
  of the list.
\<close>

fun find_df :: "string \<Rightarrow> table option \<Rightarrow> table list \<Rightarrow> table option" where
  "find_df nc df_single [] = df_single"
| "find_df nc df_single (df # dfs) =
     (if name_check nc df then Some df else find_df nc (Some df) dfs)"

definition check_bool :: "string \<Rightarrow> bool \<Rightarrow> bool \<Rightarrow> row \<Rightarrow> bool" where
  "check_bool nc include_post_season remove_week17 r =
     (let check1 = (upper (Name r) = upper nc);
          check2 = (Season r = ''Regular Season'');
          check3 = (Season r = ''Postseason'');
          check4 = (Week r \<noteq> 17);
          cb = (if include_post_season then check1 \<and> (check2 \<or> check3)
                else check1 \<and> check2)
      in if remove_week17 then cb \<and> check4 else cb)"

text \<open>\<^verbatim>\<open>df[check_bool]\<close>: a new frame of the selected rows.\<close>

definition select_rows :: "string \<Rightarrow> bool \<Rightarrow> bool \<Rightarrow> table \<Rightarrow> row list" where
  "select_rows nc include_post_season remove_week17 df =
     filter (check_bool nc include_post_season remove_week17) (rows df)"

text \<open>\<^verbatim>\<open>df_player.replace('--', 0, inplace=True)\<close>\<close>

definition replace_cell :: "cell \<Rightarrow> cell" where
  "replace_cell c = (if c = Str ''--'' then Num 0 else c)"

definition replace_row :: "row \<Rightarrow> row" where
  "replace_row r = r\<lparr>stat := (\<lambda>c. replace_cell (stat r c))\<rparr>"

definition exception_cols :: "string list" where
  "exception_cols = [''Longest Reception'', ''Longest Rushing Run'']"

text \<open>\<^verbatim>\<open>np.unique\<close>: the distinct values, ascending.\<close>

definition np_unique :: "int list \<Rightarrow> int list" where
  "np_unique xs = sort (remdups xs)"

text \<open>
  \<^verbatim>\<open>drop(labels=exception_cols, axis='columns', errors='ignore')\<close>: the headers that
  remain.
\<close>

definition drop_cols :: "string list \<Rightarrow> string list" where
  "drop_cols cols = filter (\<lambda>c. \<not> List.member exception_cols c) cols"

text \<open>
  \<^verbatim>\<open>astype(float)\<close> on one cell: NaN stays NaN (\<open>None\<close>), text that is not a number
  raises ValueError.
\<close>

fun astype_float :: "cell \<Rightarrow> error + real option" where
  "astype_float NaN = Inr None"
| "astype_float (Num x) = Inr (Some x)"
| "astype_float (Str s) = Inl ValueError_float"

fun traverse :: "('a \<Rightarrow> error + 'b) \<Rightarrow> 'a list \<Rightarrow> error + 'b list" where
  "traverse f [] = Inr []"
| "traverse f (x # xs) =
     (case f x of
        Inl e \<Rightarrow> Inl e
      | Inr y \<Rightarrow> (case traverse f xs of Inl e \<Rightarrow> Inl e | Inr ys \<Rightarrow> Inr (y # ys)))"

text \<open>\<^verbatim>\<open>Series.sum()\<close> skips NaN.\<close>

fun nan_to_zero :: "real option \<Rightarrow> real" where
  "nan_to_zero None = 0"
| "nan_to_zero (Some x) = x"

definition column_sum :: "real option list \<Rightarrow> real" where
  "column_sum xs = sum_list (map nan_to_zero xs)"

text \<open>One column of \<^verbatim>\<open>df_player_year.astype(float).sum()\<close>.\<close>

definition column_total :: "row list \<Rightarrow> string \<Rightarrow> error + (string \<times> real)" where
  "column_total df_player_year c =
     (case traverse (\<lambda>r. astype_float (stat r c)) df_player_year of
        Inl e \<Rightarrow> Inl e
      | Inr xs \<Rightarrow> Inr (c, column_sum xs))"

text \<open>
  \<open>player_year_stats\<close>: the rows of one year, cut to the columns from position 12 on,
  without the exception columns, converted to float and summed per column.
\<close>

definition player_year_stats :: "string list \<Rightarrow> row list \<Rightarrow> error + (string \<times> real) list" where
  "player_year_stats cols df_player_year = traverse (column_total df_player_year) (drop_cols cols)"

text \<open>
  The loop over \<^verbatim>\<open>league_settings.__dict__.items()\<close>; a header that is missing from
  the sums raises KeyError, which the loop catches and skips.
\<close>

fun points_loop :: "(string \<times> real) list \<Rightarrow> LeagueSettings \<Rightarrow> real \<Rightarrow> real" where
  "points_loop stats [] points = points"
| "points_loop stats ((key, v) # items) points =
     (let new_key = title (replace_char CHR ''_'' CHR '' '' key)
      in case map_of stats new_key of
           None \<Rightarrow> points_loop stats items points
         | Some s \<Rightarrow> points_loop stats items (points + s * v))"

text \<open>The loop over \<open>years\<close>, returning \<open>points_per_year\<close>.\<close>

fun year_loop :: "string list \<Rightarrow> row list \<Rightarrow> LeagueSettings \<Rightarrow> int list \<Rightarrow> error + real list" where
  "year_loop cols df_player ls [] = Inr []"
| "year_loop cols df_player ls (y # ys) =
     (case player_year_stats cols (filter (\<lambda>r. Year r = y) df_player) of
        Inl e \<Rightarrow> Inl e
      | Inr stats \<Rightarrow>
          (case year_loop cols df_player ls ys of
             Inl e \<Rightarrow> Inl e
           | Inr ps \<Rightarrow> Inr (points_loop stats ls 0 # ps)))"

text \<open>Lines 64 to 107 on the chosen frame: the rows of \<open>df_output\<close>.\<close>

definition points_series ::
  "string \<Rightarrow> table \<Rightarrow> LeagueSettings \<Rightarrow> bool \<Rightarrow> bool \<Rightarrow> error + (int \<times> real) list" where
  "points_series nc df ls include_post_season remove_week17 =
     (let df_player = map replace_row (select_rows nc include_post_season remove_week17 df);
          years = np_unique (map Year df_player)
      in case year_loop (columns df) df_player ls years of
           Inl e \<Rightarrow> Inl e
         | Inr points_per_year \<Rightarrow> Inr (zip years points_per_year))"

text \<open>
  \<open>CalculatePlayerPoints\<close> returns the profile with \<open>league_points\<close> set; an exception
  leaves the profile as it was.
\<close>

definition CalculatePlayerPoints ::
  "PlayerProfile \<Rightarrow> table list \<Rightarrow> LeagueSettings \<Rightarrow> bool \<Rightarrow> bool \<Rightarrow> error + PlayerProfile" where
  "CalculatePlayerPoints self df_list ls include_post_season remove_week17 =
     (case split_once (name self) of
        [first_name, last_name] \<Rightarrow>
          (let nc = name_combo first_name last_name
           in case find_df nc None df_list of
                None \<Rightarrow> Inl UnboundLocalError_df_single
              | Some df \<Rightarrow>
                  (case points_series nc df ls include_post_season remove_week17 of
                     Inl e \<Rightarrow> Inl e
                   | Inr df_output \<Rightarrow> Inr (self\<lparr>league_points := Some df_output\<rparr>)))
      | _ \<Rightarrow> Inl ValueError_unpack)"


section \<open>FFBAnalyzer\<close>

text \<open>
  An attribute of an instance: never assigned, holding None, or holding a value.
\<close>

datatype 'a attr = Unset | IsNone | Has 'a

text \<open>
  The seven frames \<^verbatim>\<open>pd.read_csv\<close> returns for the game-log files under
  \<open>filepath\<close>. Reading the files is outside the model.
\<close>

record nfl_data =
  csv_dline :: table
  csv_oline :: table
  csv_k :: table
  csv_p :: table
  csv_qb :: table
  csv_rb :: table
  csv_wr :: table

record FFBAnalyzer =
  players :: "PlayerProfile list"
  league_settings :: LeagueSettings
  df_dline :: "table option"
  df_oline :: "table option"
  df_k :: "table option"
  df_p :: "table option"
  df_qb :: "table option"
  df_rb :: "table option"
  df_wr :: "table option"
  dl_list :: "table list attr"

definition LoadNflData :: "FFBAnalyzer \<Rightarrow> nfl_data \<Rightarrow> FFBAnalyzer" where
  "LoadNflData self d =
     (let self = self\<lparr>df_dline := Some (csv_dline d)\<rparr>;
          self = self\<lparr>df_oline := Some (csv_oline d)\<rparr>;
          self = self\<lparr>df_k := Some (csv_k d)\<rparr>;
          self = self\<lparr>df_p := Some (csv_p d)\<rparr>;
          self = self\<lparr>df_qb := Some (csv_qb d)\<rparr>;
          self = self\<lparr>df_rb := Some (csv_rb d)\<rparr>;
          self = self\<lparr>df_wr := Some (csv_wr d)\<rparr>
      in self\<lparr>dl_list := Has [csv_k d, csv_p d, csv_qb d, csv_rb d, csv_wr d,
                                 csv_dline d, csv_oline d]\<rparr>)"

text \<open>
  The constructor. It assigns \<open>players\<close>, \<open>league_settings\<close> and the seven frames, and
  it does not assign \<open>dl_list\<close>: only \<open>LoadNflData\<close> does.
\<close>

definition FFBAnalyzer_init :: "nfl_data option \<Rightarrow> LeagueSettings \<Rightarrow> FFBAnalyzer" where
  "FFBAnalyzer_init filepath ls =
     (let self = \<lparr>players = [], league_settings = ls,
                   df_dline = None, df_oline = None, df_k = None, df_p = None,
                   df_qb = None, df_rb = None, df_wr = None, dl_list = Unset\<rparr>
      in case filepath of None \<Rightarrow> self | Some d \<Rightarrow> LoadNflData self d)"

text \<open>
  A method returns its result, or the exception it raised, together with the analyzer
  as the call left it.

  \<open>AddPlayer\<close> reads \<^verbatim>\<open>self.dl_list\<close> for the test against None: an attribute that
  was never assigned raises AttributeError there. The call of
  \<open>CalculatePlayerPoints\<close> uses the default arguments
  \<^verbatim>\<open>include_post_season=False, remove_week17=True\<close>.
\<close>

definition AddPlayer :: "FFBAnalyzer \<Rightarrow> string \<Rightarrow> (error + PlayerProfile) \<times> FFBAnalyzer" where
  "AddPlayer self player_name =
     (let player = PlayerProfile_init player_name
      in case dl_list self of
           Unset \<Rightarrow> (Inl AttributeError_dl_list, self)
         | IsNone \<Rightarrow> (Inl NameError_not_loaded, self)
         | Has dl \<Rightarrow>
             (case CalculatePlayerPoints player dl (league_settings self) False True of
                Inl e \<Rightarrow> (Inl e, self)
              | Inr player' \<Rightarrow> (Inr player', self\<lparr>players := players self @ [player']\<rparr>)))"

text \<open>
  \<open>AddPlayers\<close> iterates over the name \<open>players\<close>, which is neither a local, nor a
  parameter (that is \<open>player_names\<close>), nor a global of the module: evaluating it raises
  NameError before the first iteration, whatever the argument.
\<close>

definition AddPlayers :: "FFBAnalyzer \<Rightarrow> string list \<Rightarrow> (error + unit) \<times> FFBAnalyzer" where
  "AddPlayers self player_names = (Inl NameError_players, self)"

text \<open>
  \<open>UpdatePlayerScores\<close> calls \<^verbatim>\<open>player.CalculatePlayerPoints(self.dl_list)\<close> for the
  first player: the argument \<^verbatim>\<open>self.dl_list\<close> is evaluated (AttributeError when it
  was never assigned), and the call then raises TypeError, because the parameter
  \<open>league_settings\<close> has no default and no argument. \<open>self.players\<close> is assigned only
  after the loop, so a raise leaves it as it was. With no player the loop body never
  runs and \<open>players_new\<close>, the empty list, is stored.
\<close>

definition UpdatePlayerScores :: "FFBAnalyzer \<Rightarrow> (error + unit) \<times> FFBAnalyzer" where
  "UpdatePlayerScores self =
     (case players self of
        [] \<Rightarrow> (Inr (), self\<lparr>players := []\<rparr>)
      | player # rest \<Rightarrow>
          (case dl_list self of
             Unset \<Rightarrow> (Inl AttributeError_dl_list, self)
           | _ \<Rightarrow> (Inl TypeError_missing_league_settings, self)))"

definition ChangeLeagueSettings :: "FFBAnalyzer \<Rightarrow> LeagueSettings \<Rightarrow> (error + unit) \<times> FFBAnalyzer" where
  "ChangeLeagueSettings self new_league_settings =
     UpdatePlayerScores (self\<lparr>league_settings := new_league_settings\<rparr>)"


section \<open>An example data directory\<close>

definition no_stats :: "string \<Rightarrow> cell" where
  "no_stats = (\<lambda>c. NaN)"

definition qb_columns :: "string list" where
  "qb_columns = [''Games Started'', ''Passing Yards'', ''Passing Tds'', ''Interceptions'',
                 ''Longest Rushing Run'']"

definition brady_2016_w1 :: row where
  "brady_2016_w1 = \<lparr>Name = ''Brady, Tom'', Season = ''Regular Season'', Week = 1, Year = 2016,
     stat = no_stats(''Games Started'' := Num 1, ''Passing Yards'' := Num 2500,
                     ''Passing Tds'' := Num 20, ''Interceptions'' := Str ''--'',
                     ''Longest Rushing Run'' := Str ''15T'')\<rparr>"

definition brady_2016_w2 :: row where
  "brady_2016_w2 = \<lparr>Name = ''Brady, Tom'', Season = ''Regular Season'', Week = 2, Year = 2016,
     stat = no_stats(''Games Started'' := Num 1, ''Passing Yards'' := Num 1500,
                     ''Passing Tds'' := Num 10, ''Interceptions'' := Num 10,
                     ''Longest Rushing Run'' := Str ''--'')\<rparr>"

definition brady_2016_w17 :: row where
  "brady_2016_w17 = \<lparr>Name = ''Brady, Tom'', Season = ''Regular Season'', Week = 17, Year = 2016,
     stat = no_stats(''Games Started'' := Num 1, ''Passing Yards'' := Num 300,
                     ''Passing Tds'' := Num 3, ''Interceptions'' := Num 1,
                     ''Longest Rushing Run'' := Num 4)\<rparr>"

definition brady_2016_post :: row where
  "brady_2016_post = \<lparr>Name = ''Brady, Tom'', Season = ''Postseason'', Week = 19, Year = 2016,
     stat = no_stats(''Games Started'' := Num 1, ''Passing Yards'' := Num 400,
                     ''Passing Tds'' := Num 2, ''Interceptions'' := Num 0,
                     ''Longest Rushing Run'' := Str ''--'')\<rparr>"

definition brady_2015_w3 :: row where
  "brady_2015_w3 = \<lparr>Name = ''Brady, Tom'', Season = ''Regular Season'', Week = 3, Year = 2015,
     stat = no_stats(''Games Started'' := Num 1, ''Passing Yards'' := Num 350,
                     ''Passing Tds'' := Num 3, ''Interceptions'' := Num 2,
                     ''Longest Rushing Run'' := Num 7)\<rparr>"

definition ryan_2016_w1 :: row where
  "ryan_2016_w1 = \<lparr>Name = ''Ryan, Matt'', Season = ''Regular Season'', Week = 1, Year = 2016,
     stat = no_stats(''Games Started'' := Num 1, ''Passing Yards'' := Num 330,
                     ''Passing Tds'' := Num 2, ''Interceptions'' := Num 1,
                     ''Longest Rushing Run'' := Str ''9T'')\<rparr>"

definition example_qb :: table where
  "example_qb = \<lparr>columns = qb_columns,
     rows = [brady_2016_w1, ryan_2016_w1, brady_2016_w2, brady_2016_w17, brady_2016_post,
             brady_2015_w3]\<rparr>"

definition empty_frame :: table where
  "empty_frame = \<lparr>columns = [''Games Started''], rows = []\<rparr>"

definition example_data :: nfl_data where
  "example_data = \<lparr>csv_dline = empty_frame, csv_oline = empty_frame, csv_k = empty_frame,
     csv_p = empty_frame, csv_qb = example_qb, csv_rb = empty_frame, csv_wr = empty_frame\<rparr>"


definition example_dl :: "table list" where
  "example_dl = [empty_frame, empty_frame, example_qb, empty_frame, empty_frame,
                 empty_frame, empty_frame]"

definition example_analyzer :: FFBAnalyzer where
  "example_analyzer = FFBAnalyzer_init (Some example_data) LeagueSettings_init"

definition brady :: PlayerProfile where
  "brady = \<lparr>name = ''Tom Brady'', league_points = Some [(2015, 24), (2016, 270)]\<rparr>"


text \<open>Other settings: one point per passing yard.\<close>

definition example_new_settings :: LeagueSettings where
  "example_new_settings = setattr ''passing_yards'' 1 LeagueSettings_init"


section \<open>Frames that convert to float\<close>

text \<open>
  A cell that \<^verbatim>\<open>replace('--', 0)\<close> followed by \<^verbatim>\<open>astype(float)\<close> accepts: NaN, a
  number, or the marker \<^verbatim>\<open>'--'\<close>.
\<close>

definition convertible :: "cell \<Rightarrow> bool" where
  "convertible c = (case astype_float (replace_cell c) of Inl e \<Rightarrow> False | Inr x \<Rightarrow> True)"

text \<open>Every cell of the rows under the summed columns converts.\<close>

definition numeric_rows :: "string list \<Rightarrow> row list \<Rightarrow> bool" where
  "numeric_rows cols rs = list_all (\<lambda>r. list_all (\<lambda>c. convertible (stat r c)) (drop_cols cols)) rs"



section \<open>Name parts as the specification reads them\<close>

text \<open>
  The specification speaks of a name that parses into exactly two name parts, first
  and last. Its reading of a name is modelled here, following the specification's
  words and not the code: the parts are the maximal runs of characters other than
  the space. The code's own cut of a name is \<open>split_once\<close>.
\<close>

fun parts_from :: "string \<Rightarrow> string \<Rightarrow> string list" where
  "parts_from part [] = (if part = [] then [] else [part])"
| "parts_from part (c # cs) =
     (if c = CHR '' '' then (if part = [] then parts_from [] cs else part # parts_from [] cs)
      else parts_from (part @ [c]) cs)"

definition spec_name_parts :: "string \<Rightarrow> string list" where
  "spec_name_parts s = parts_from [] s"


section \<open>The default weights as the specification lists them\<close>

text \<open>
  Section 4.1 of the specification, category by category, in its order. This table
  follows the specification's words; \<open>LeagueSettings_init\<close> follows the code.
\<close>

definition spec_default_weights :: "(string \<times> real) list" where
  "spec_default_weights =
     [(''passing yards'', 0.04), (''passing tds'', 4), (''interceptions'', - 1),
      (''rushing yards'', 0.1), (''rushing tds'', 6), (''receptions'', 0.5),
      (''receiving yards'', 0.1), (''receiving tds'', 6), (''two pt conversions'', 2),
      (''fumbles lost'', - 2), (''offensive fumble return tds'', 6),
      (''yards 40 plus'', 0), (''tds 40 plus'', 0), (''fg 20'', 3), (''fg 30'', 3),
      (''fg 40'', 3), (''fg 50'', 4), (''fg 50 plus'', 5), (''extra point'', 1)]"


section \<open>Facts about the example\<close>

lemma example_analyzer_eq:
  "example_analyzer = \<lparr>players = [], league_settings = LeagueSettings_init,
     df_dline = Some empty_frame, df_oline = Some empty_frame, df_k = Some empty_frame,
     df_p = Some empty_frame, df_qb = Some example_qb, df_rb = Some empty_frame,
     df_wr = Some empty_frame, dl_list = Has example_dl\<rparr>"
  by (simp add: example_analyzer_def FFBAnalyzer_init_def LoadNflData_def example_data_def
      example_dl_def)

lemma brady_points:
  "CalculatePlayerPoints (PlayerProfile_init ''Tom Brady'') example_dl LeagueSettings_init
     False True = Inr brady"
  by code_simp

lemma add_brady:
  "AddPlayer example_analyzer ''Tom Brady'' =
     (Inr brady, example_analyzer\<lparr>players := [brady]\<rparr>)"
proof -
  have "dl_list example_analyzer = Has example_dl"
    and "league_settings example_analyzer = LeagueSettings_init"
    and "players example_analyzer = []"
    by (simp_all add: example_analyzer_eq)
  then show ?thesis
    by (simp add: AddPlayer_def brady_points)
qed


section \<open>Player names\<close>

lemma astype_float_error: "astype_float c = Inl e \<Longrightarrow> e = ValueError_float"
  by (cases c) auto

lemma traverse_error: "traverse f xs = Inl e \<Longrightarrow> \<exists>x\<in>set xs. f x = Inl e"
  by (induction xs) (auto split: sum.splits)

lemma column_total_error: "column_total rs c = Inl e \<Longrightarrow> e = ValueError_float"
  by (auto simp: column_total_def split: sum.splits dest!: traverse_error astype_float_error)

lemma player_year_stats_error: "player_year_stats cols rs = Inl e \<Longrightarrow> e = ValueError_float"
  by (auto simp: player_year_stats_def dest!: traverse_error column_total_error)

lemma year_loop_error: "year_loop cols df_player ls years = Inl e \<Longrightarrow> e = ValueError_float"
  by (induction years) (auto split: sum.splits dest: player_year_stats_error)

lemma points_series_error: "points_series nc df ls ips rw = Inl e \<Longrightarrow> e = ValueError_float"
  by (auto simp: points_series_def Let_def split: sum.splits dest: year_loop_error)

text \<open>
  Claim C8, as the code has it. \<open>CalculatePlayerPoints\<close> fails with the unpacking error
  (InvalidPlayerName) exactly for the names that hold no space. A name with a space
  is cut at its first space into two parts, of which either may be empty and the
  second may hold further spaces; such a name never fails with InvalidPlayerName.
\<close>

theorem C8_invalid_player_name_iff:
  "(CalculatePlayerPoints self df_list ls include_post_season remove_week17
      = Inl InvalidPlayerName)
   = (CHR '' '' \<notin> set (name self))"
proof (cases "CHR '' '' \<in> set (name self)")
  case True
  then obtain a b where ab: "split_once (name self) = [a, b]"
    by (simp add: split_once_def)
  have "CalculatePlayerPoints self df_list ls include_post_season remove_week17
      \<noteq> Inl ValueError_unpack"
  proof
    assume "CalculatePlayerPoints self df_list ls include_post_season remove_week17
      = Inl ValueError_unpack"
    with ab obtain df where
      "points_series (name_combo a b) df ls include_post_season remove_week17
         = Inl ValueError_unpack"
      by (auto simp: CalculatePlayerPoints_def Let_def split: option.splits sum.splits)
    from points_series_error [OF this] show False by simp
  qed
  with True show ?thesis by simp
next
  case False
  then have "split_once (name self) = [name self]"
    by (simp add: split_once_def)
  with False show ?thesis
    by (simp add: CalculatePlayerPoints_def)
qed

text \<open>Prince has no space and fails; Tom Brady has one and does not.\<close>

theorem C8_invalid_player_name_iff_witness:
  "CHR '' '' \<notin> set (name (PlayerProfile_init ''Prince'')) \<and>
   CalculatePlayerPoints (PlayerProfile_init ''Prince'') example_dl LeagueSettings_init
     False True = Inl InvalidPlayerName \<and>
   CHR '' '' \<in> set (name (PlayerProfile_init ''Tom Brady'')) \<and>
   CalculatePlayerPoints (PlayerProfile_init ''Tom Brady'') example_dl LeagueSettings_init
     False True \<noteq> Inl InvalidPlayerName"
proof -
  have a: "CHR '' '' \<notin> set (name (PlayerProfile_init ''Prince''))"
    by (simp add: PlayerProfile_init_def)
  have b: "CHR '' '' \<in> set (name (PlayerProfile_init ''Tom Brady''))"
    by (simp add: PlayerProfile_init_def)
  from a C8_invalid_player_name_iff [of "PlayerProfile_init ''Prince''" example_dl
      LeagueSettings_init False True]
  have c: "CalculatePlayerPoints (PlayerProfile_init ''Prince'') example_dl LeagueSettings_init
     False True = Inl InvalidPlayerName"
    by blast
  from b C8_invalid_player_name_iff [of "PlayerProfile_init ''Tom Brady''" example_dl
      LeagueSettings_init False True]
  have d: "CalculatePlayerPoints (PlayerProfile_init ''Tom Brady'') example_dl
     LeagueSettings_init False True \<noteq> Inl InvalidPlayerName"
    by blast
  from a b c d show ?thesis by blast
qed

text \<open>
  The claim as stated fails on the name Prince followed by a space: it has one name
  part, not two, yet the code cuts it into Prince and the empty string, finds no row
  for it and returns the empty series.
\<close>

theorem C8_trailing_space_counterexample:
  "spec_name_parts ''Prince '' = [''Prince''] \<and>
   length (spec_name_parts ''Prince '') \<noteq> 2 \<and>
   split_once ''Prince '' = [''Prince'', []] \<and>
   CalculatePlayerPoints (PlayerProfile_init ''Prince '') example_dl LeagueSettings_init
     False True = Inr \<lparr>name = ''Prince '', league_points = Some []\<rparr> \<and>
   CalculatePlayerPoints (PlayerProfile_init ''Prince '') example_dl LeagueSettings_init
     False True \<noteq> Inl InvalidPlayerName"
proof -
  have a: "spec_name_parts ''Prince '' = [''Prince'']"
    by (simp add: spec_name_parts_def)
  have b: "split_once ''Prince '' = [''Prince'', []]"
    by (simp add: split_once_def)
  have c: "CalculatePlayerPoints (PlayerProfile_init ''Prince '') example_dl
     LeagueSettings_init False True = Inr \<lparr>name = ''Prince '', league_points = Some []\<rparr>"
    by code_simp
  from a b c show ?thesis by simp
qed


section \<open>Default scoring rules\<close>

text \<open>
  Claim C5. With the underscores of the attribute names read as spaces, the attributes
  of a default-constructed LeagueSettings and their values are exactly the
  specification's table: the same nineteen categories, the same weights, nothing else.
\<close>

theorem C5_default_weights:
  "map (\<lambda>(k, v). (replace_char CHR ''_'' CHR '' '' k, v)) LeagueSettings_init
     = spec_default_weights"
  by (simp add: LeagueSettings_init_def spec_default_weights_def replace_char_def)


section \<open>AddPlayer\<close>

text \<open>
  Claim C10. On an analyzer whose frames are loaded, a successful \<open>AddPlayer\<close> returns
  the profile computed for the name under the current settings, appends it as the last
  element of \<open>players\<close>, and changes nothing else: the earlier profiles, the settings
  and the frames are as before.
\<close>

theorem C10_AddPlayer_frame:
  assumes "dl_list self = Has dl"
    and "AddPlayer self player_name = (Inr player, self')"
  shows "self' = self\<lparr>players := players self @ [player]\<rparr> \<and>
         players self' = players self @ [player] \<and>
         take (length (players self)) (players self') = players self \<and>
         name player = player_name \<and>
         CalculatePlayerPoints (PlayerProfile_init player_name) dl (league_settings self)
           False True = Inr player \<and>
         league_settings self' = league_settings self \<and>
         dl_list self' = dl_list self \<and>
         df_dline self' = df_dline self \<and> df_oline self' = df_oline self \<and>
         df_k self' = df_k self \<and> df_p self' = df_p self \<and> df_qb self' = df_qb self \<and>
         df_rb self' = df_rb self \<and> df_wr self' = df_wr self"
proof -
  from assms
  have c: "CalculatePlayerPoints (PlayerProfile_init player_name) dl (league_settings self)
             False True = Inr player"
    and s: "self' = self\<lparr>players := players self @ [player]\<rparr>"
    by (auto simp: AddPlayer_def split: sum.splits)
  from c have "name player = player_name"
    by (auto simp: CalculatePlayerPoints_def PlayerProfile_init_def Let_def
        split: list.splits option.splits sum.splits)
  with c s show ?thesis by simp
qed

text \<open>Adding Tom Brady to the example analyzer.\<close>

theorem C10_AddPlayer_frame_witness:
  "dl_list example_analyzer = Has example_dl \<and>
   AddPlayer example_analyzer ''Tom Brady'' = (Inr brady, example_analyzer\<lparr>players := [brady]\<rparr>) \<and>
   players (example_analyzer\<lparr>players := [brady]\<rparr>) = players example_analyzer @ [brady] \<and>
   league_settings (example_analyzer\<lparr>players := [brady]\<rparr>) = league_settings example_analyzer \<and>
   dl_list (example_analyzer\<lparr>players := [brady]\<rparr>) = dl_list example_analyzer"
proof -
  have h: "dl_list example_analyzer = Has example_dl"
    by (simp add: example_analyzer_eq)
  note r = C10_AddPlayer_frame [OF h add_brady]
  from r have p: "players (example_analyzer\<lparr>players := [brady]\<rparr>)
                    = players example_analyzer @ [brady]"
    by blast
  from r have l: "league_settings (example_analyzer\<lparr>players := [brady]\<rparr>)
                    = league_settings example_analyzer"
    by blast
  from r have d: "dl_list (example_analyzer\<lparr>players := [brady]\<rparr>) = dl_list example_analyzer"
    by blast
  from h add_brady p l d show ?thesis by blast
qed

text \<open>
  Claim C3, evaluated on the code. The constructor called without a path never assigns
  \<open>dl_list\<close>, so the test \<^verbatim>\<open>self.dl_list is None\<close> in \<open>AddPlayer\<close> raises
  AttributeError; the NameError of the next line (DataNotLoaded) is not reached. No
  profile is stored.
\<close>

theorem C3_unloaded_AddPlayer:
  "AddPlayer (FFBAnalyzer_init None LeagueSettings_init) ''John Smith''
     = (Inl AttributeError_dl_list, FFBAnalyzer_init None LeagueSettings_init) \<and>
   fst (AddPlayer (FFBAnalyzer_init None LeagueSettings_init) ''John Smith'')
     \<noteq> Inl DataNotLoaded \<and>
   players (snd (AddPlayer (FFBAnalyzer_init None LeagueSettings_init) ''John Smith'')) = []"
  by (simp add: AddPlayer_def FFBAnalyzer_init_def)

section \<open>AddPlayers and ChangeLeagueSettings\<close>

lemma brady_new_points:
  "CalculatePlayerPoints (PlayerProfile_init ''Tom Brady'') example_dl example_new_settings
     False True = Inr \<lparr>name = ''Tom Brady'', league_points = Some [(2015, 360), (2016, 4110)]\<rparr>"
  by code_simp

text \<open>
  Claim C9, evaluated on the code. On the loaded example analyzer, where
  \<open>AddPlayer\<close> of Tom Brady succeeds, \<open>AddPlayers\<close> of the one-name list raises
  NameError for the unbound name \<open>players\<close> and adds nobody.
\<close>

theorem C9_AddPlayers_raises:
  "AddPlayers example_analyzer [''Tom Brady''] = (Inl NameError_players, example_analyzer) \<and>
   players (snd (AddPlayers example_analyzer [''Tom Brady''])) = [] \<and>
   AddPlayer example_analyzer ''Tom Brady''
     = (Inr brady, example_analyzer\<lparr>players := [brady]\<rparr>)"
proof -
  have "players example_analyzer = []"
    by (simp add: example_analyzer_eq)
  then show ?thesis
    by (simp add: AddPlayers_def add_brady)
qed

text \<open>
  Claim C2, evaluated on the code. With Tom Brady stored under the default settings,
  \<open>ChangeLeagueSettings\<close> to one point per passing yard replaces the settings and then
  raises TypeError in \<open>UpdatePlayerScores\<close>; the stored profile keeps the series
  computed under the old settings (24 and 270 points), while a fresh computation under
  the new settings gives 360 and 4110.
\<close>

theorem C2_ChangeLeagueSettings_raises:
  "snd (AddPlayer example_analyzer ''Tom Brady'') = example_analyzer\<lparr>players := [brady]\<rparr> \<and>
   ChangeLeagueSettings (example_analyzer\<lparr>players := [brady]\<rparr>) example_new_settings
     = (Inl TypeError_missing_league_settings,
        example_analyzer\<lparr>players := [brady], league_settings := example_new_settings\<rparr>) \<and>
   map league_points
     (players (snd (ChangeLeagueSettings (example_analyzer\<lparr>players := [brady]\<rparr>)
                      example_new_settings)))
     = [Some [(2015, 24), (2016, 270)]] \<and>
   CalculatePlayerPoints (PlayerProfile_init ''Tom Brady'') example_dl example_new_settings
     False True
     = Inr \<lparr>name = ''Tom Brady'', league_points = Some [(2015, 360), (2016, 4110)]\<rparr>"
proof -
  have "dl_list example_analyzer = Has example_dl"
    by (simp add: example_analyzer_eq)
  then show ?thesis
    by (simp add: ChangeLeagueSettings_def UpdatePlayerScores_def brady_new_points brady_def
        add_brady)
qed


section \<open>The season filter\<close>






section \<open>The series of years\<close>

lemma traverse_length: "traverse f xs = Inr ys \<Longrightarrow> length ys = length xs"
  by (induction xs arbitrary: ys) (auto split: sum.splits)

lemma traverse_succeeds:
  "(\<And>x. x \<in> set xs \<Longrightarrow> \<exists>y. f x = Inr y) \<Longrightarrow> \<exists>ys. traverse f xs = Inr ys"
proof (induction xs)
  case Nil
  then show ?case by simp
next
  case (Cons x xs)
  then obtain y ys where "f x = Inr y" "traverse f xs = Inr ys"
    by (meson list.set_intros)
  then show ?case by simp
qed

lemma year_loop_length: "year_loop cols df_player ls years = Inr ps \<Longrightarrow> length ps = length years"
  by (induction years arbitrary: ps) (auto split: sum.splits)

lemma convertible_astype:
  "convertible c \<Longrightarrow> \<exists>x. astype_float (replace_cell c) = Inr x"
  by (auto simp: convertible_def split: sum.splits)

lemma player_year_stats_succeeds:
  assumes "numeric_rows cols rs" and "set rs' \<subseteq> set (map replace_row rs)"
  shows "\<exists>stats. player_year_stats cols rs' = Inr stats"
  unfolding player_year_stats_def
proof (rule traverse_succeeds)
  fix c assume c: "c \<in> set (drop_cols cols)"
  have "\<exists>xs. traverse (\<lambda>r. astype_float (stat r c)) rs' = Inr xs"
  proof (rule traverse_succeeds)
    fix r assume "r \<in> set rs'"
    with assms(2) obtain r0 where r0: "r0 \<in> set rs" "r = replace_row r0" by auto
    with assms(1) c have "convertible (stat r0 c)"
      by (auto simp: numeric_rows_def list_all_iff)
    then show "\<exists>y. astype_float (stat r c) = Inr y"
      using r0 by (simp add: replace_row_def convertible_astype)
  qed
  then show "\<exists>y. column_total rs' c = Inr y"
    by (auto simp: column_total_def)
qed

lemma year_loop_succeeds:
  assumes "numeric_rows cols rs"
  shows "\<exists>ps. year_loop cols (map replace_row rs) ls years = Inr ps"
proof (induction years)
  case Nil
  then show ?case by simp
next
  case (Cons y ys)
  from player_year_stats_succeeds [OF assms, of "filter (\<lambda>r. Year r = y) (map replace_row rs)"]
  obtain stats where "player_year_stats cols (filter (\<lambda>r. Year r = y) (map replace_row rs)) = Inr stats"
    by auto
  with Cons show ?case by auto
qed

lemma Year_replace_row: "map Year (map replace_row rs) = map Year rs"
  by (simp add: replace_row_def)

lemma np_unique_props:
  "set (np_unique xs) = set xs" "sorted_wrt (<) (np_unique xs)" "distinct (np_unique xs)"
  "length (np_unique xs) = card (set xs)"
  by (simp_all add: np_unique_def strict_sorted_iff length_remdups_card_conv)

lemma points_series_years:
  assumes "points_series nc df ls ips rw = Inr series"
  shows "map fst series = np_unique (map Year (select_rows nc ips rw df))"
proof -
  from assms obtain ps where
    ps: "year_loop (columns df) (map replace_row (select_rows nc ips rw df)) ls
           (np_unique (map Year (select_rows nc ips rw df))) = Inr ps"
    and s: "series = zip (np_unique (map Year (select_rows nc ips rw df))) ps"
    by (auto simp: points_series_def Let_def Year_replace_row simp del: map_map split: sum.splits)
  from year_loop_length [OF ps] s show ?thesis by simp
qed

lemma points_series_succeeds:
  assumes "numeric_rows (columns df) (select_rows nc ips rw df)"
  shows "\<exists>series. points_series nc df ls ips rw = Inr series"
  using year_loop_succeeds [OF assms, of ls "np_unique (map Year (map replace_row (select_rows nc ips rw df)))"]
  by (auto simp: points_series_def Let_def)

lemma find_df_find:
  "find_df nc cur dfs =
     (case List.find (name_check nc) dfs of
        Some df \<Rightarrow> Some df
      | None \<Rightarrow> (if dfs = [] then cur else Some (last dfs)))"
  by (induction dfs arbitrary: cur) (auto split: option.splits)

lemma find_filter_single: "filter P xs = [x] \<Longrightarrow> List.find P xs = Some x"
  by (induction xs) (auto split: if_splits)

text \<open>
  Claim C4. Take a name that splits into first and last name, whose normalised form
  is found in exactly one frame \<open>df\<close> of the list, and let the cells of the player's
  filtered rows under the summed columns be numbers, empty or the marker. Then
  \<open>CalculatePlayerPoints\<close> returns, and the years of the stored series are exactly the
  distinct years of the player's filtered rows of \<open>df\<close>: one entry each, strictly
  ascending, none twice.
\<close>

theorem C4_one_entry_per_year:
  assumes "split_once (name self) = [first_name, last_name]"
    and "filter (name_check (name_combo first_name last_name)) df_list = [df]"
    and "numeric_rows (columns df)
           (select_rows (name_combo first_name last_name) ips rw df)"
  shows "\<exists>series.
           CalculatePlayerPoints self df_list ls ips rw
             = Inr (self\<lparr>league_points := Some series\<rparr>) \<and>
           map fst series
             = np_unique (map Year (select_rows (name_combo first_name last_name) ips rw df)) \<and>
           set (map fst series)
             = Year ` set (select_rows (name_combo first_name last_name) ips rw df) \<and>
           sorted_wrt (<) (map fst series) \<and>
           distinct (map fst series) \<and>
           length series
             = card (Year ` set (select_rows (name_combo first_name last_name) ips rw df))"
proof -
  let ?nc = "name_combo first_name last_name"
  from assms(2) have "find_df ?nc None df_list = Some df"
    by (simp add: find_df_find find_filter_single)
  moreover from points_series_succeeds [OF assms(3)]
  obtain series where s: "points_series ?nc df ls ips rw = Inr series"
    by blast
  ultimately have c: "CalculatePlayerPoints self df_list ls ips rw
      = Inr (self\<lparr>league_points := Some series\<rparr>)"
    using assms(1) by (simp add: CalculatePlayerPoints_def)
  have y: "map fst series = np_unique (map Year (select_rows ?nc ips rw df))"
    by (rule points_series_years [OF s])
  have "length series = length (map fst series)"
    by simp
  also have "\<dots> = card (Year ` set (select_rows ?nc ips rw df))"
    by (simp only: y np_unique_props set_map)
  finally have l: "length series = card (Year ` set (select_rows ?nc ips rw df))" .
  from c y l show ?thesis
    by (intro exI [of _ series]) (simp add: np_unique_props)
qed

lemma name_check_brady: "name_check (name_combo ''Tom'' ''Brady'') example_qb"
  by code_simp

lemma name_check_empty_frame: "\<not> name_check nc empty_frame"
  by (simp add: name_check_def empty_frame_def)

lemma split_tom_brady: "split_once (name (PlayerProfile_init ''Tom Brady'')) = [''Tom'', ''Brady'']"
  by (simp add: PlayerProfile_init_def split_once_def)

lemma filter_brady: "filter (name_check (name_combo ''Tom'' ''Brady'')) example_dl = [example_qb]"
  by (simp add: example_dl_def name_check_brady name_check_empty_frame)

lemma numeric_brady:
  "numeric_rows (columns example_qb) (select_rows (name_combo ''Tom'' ''Brady'') False True example_qb)"
  by code_simp

text \<open>Tom Brady in the example, found in the quarterback frame only.\<close>

theorem C4_one_entry_per_year_witness:
  "split_once (name (PlayerProfile_init ''Tom Brady'')) = [''Tom'', ''Brady''] \<and>
   filter (name_check (name_combo ''Tom'' ''Brady'')) example_dl = [example_qb] \<and>
   numeric_rows (columns example_qb)
     (select_rows (name_combo ''Tom'' ''Brady'') False True example_qb) \<and>
   (\<exists>series.
      CalculatePlayerPoints (PlayerProfile_init ''Tom Brady'') example_dl LeagueSettings_init
        False True = Inr ((PlayerProfile_init ''Tom Brady'')\<lparr>league_points := Some series\<rparr>) \<and>
      sorted_wrt (<) (map fst series) \<and>
      distinct (map fst series) \<and>
      length series
        = card (Year ` set (select_rows (name_combo ''Tom'' ''Brady'') False True example_qb)))"
proof -
  from C4_one_entry_per_year [OF split_tom_brady filter_brady numeric_brady,
      of LeagueSettings_init]
  have "\<exists>series.
      CalculatePlayerPoints (PlayerProfile_init ''Tom Brady'') example_dl LeagueSettings_init
        False True = Inr ((PlayerProfile_init ''Tom Brady'')\<lparr>league_points := Some series\<rparr>) \<and>
      sorted_wrt (<) (map fst series) \<and>
      distinct (map fst series) \<and>
      length series
        = card (Year ` set (select_rows (name_combo ''Tom'' ''Brady'') False True example_qb))"
    by blast
  with split_tom_brady filter_brady numeric_brady show ?thesis by blast
qed


section \<open>The frame that is searched\<close>

lemma select_rows_no_match:
  assumes "\<not> name_check nc df"
  shows "select_rows nc ips rw df = []"
proof -
  from assms have "\<And>r. r \<in> set (rows df) \<Longrightarrow> upper (Name r) \<noteq> upper nc"
    by (fastforce simp: name_check_def image_iff)
  then show ?thesis
    by (auto simp: select_rows_def check_bool_def Let_def filter_empty_conv)
qed

lemma points_series_empty:
  "select_rows nc ips rw df = [] \<Longrightarrow> points_series nc df ls ips rw = Inr []"
  by (simp add: points_series_def np_unique_def)

lemma LoadNflData_dl_list:
  "dl_list (LoadNflData analyzer d)
     = Has [csv_k d, csv_p d, csv_qb d, csv_rb d, csv_wr d, csv_dline d, csv_oline d]"
  by (simp add: LoadNflData_def)

text \<open>
  Claim C1, as the code has it. \<open>LoadNflData\<close> builds the list kickers, punters,
  quarterbacks, running backs, receivers, defensive line, offensive line. For a name
  that splits in two, \<open>CalculatePlayerPoints\<close> works on the first frame of that list
  whose names contain the normalised name. When no frame contains it, the call does
  not fail: the loop ends on the last frame (offensive line), no row of it matches,
  and the profile gets the empty series.
\<close>

theorem C1_table_selection:
  assumes "split_once (name self) = [first_name, last_name]"
    and "dl_list (LoadNflData analyzer d) = Has dl"
  shows "dl = [csv_k d, csv_p d, csv_qb d, csv_rb d, csv_wr d, csv_dline d, csv_oline d] \<and>
         (case List.find (name_check (name_combo first_name last_name)) dl of
            None \<Rightarrow>
              find_df (name_combo first_name last_name) None dl = Some (csv_oline d) \<and>
              CalculatePlayerPoints self dl ls ips rw = Inr (self\<lparr>league_points := Some []\<rparr>)
          | Some df \<Rightarrow>
              find_df (name_combo first_name last_name) None dl = Some df \<and>
              CalculatePlayerPoints self dl ls ips rw =
                (case points_series (name_combo first_name last_name) df ls ips rw of
                   Inl e \<Rightarrow> Inl e
                 | Inr df_output \<Rightarrow> Inr (self\<lparr>league_points := Some df_output\<rparr>)))"
proof -
  let ?nc = "name_combo first_name last_name"
  from assms(2)
  have dl: "dl = [csv_k d, csv_p d, csv_qb d, csv_rb d, csv_wr d, csv_dline d, csv_oline d]"
    by (simp add: LoadNflData_dl_list)
  show ?thesis
  proof (cases "List.find (name_check ?nc) dl")
    case None
    then have f: "find_df ?nc None dl = Some (csv_oline d)"
      by (simp add: find_df_find dl)
    from None have "\<not> (\<exists>x. x \<in> set dl \<and> name_check ?nc x)"
      by (simp add: find_None_iff)
    moreover have "csv_oline d \<in> set dl"
      by (simp add: dl)
    ultimately have "\<not> name_check ?nc (csv_oline d)"
      by blast
    then have "points_series ?nc (csv_oline d) ls ips rw = Inr []"
      by (simp add: select_rows_no_match points_series_empty)
    with f None dl assms(1) show ?thesis
      by (simp add: CalculatePlayerPoints_def)
  next
    case (Some df)
    then have "find_df ?nc None dl = Some df"
      by (simp add: find_df_find)
    with Some dl assms(1) show ?thesis
      by (simp add: CalculatePlayerPoints_def)
  qed
qed

lemma find_brady:
  "List.find (name_check (name_combo ''Tom'' ''Brady'')) example_dl = Some example_qb"
  by (simp add: example_dl_def name_check_brady name_check_empty_frame)

text \<open>Tom Brady: the quarterback frame is the first that has him.\<close>

theorem C1_table_selection_witness:
  "split_once (name (PlayerProfile_init ''Tom Brady'')) = [''Tom'', ''Brady''] \<and>
   dl_list (LoadNflData (FFBAnalyzer_init None LeagueSettings_init) example_data)
     = Has example_dl \<and>
   List.find (name_check (name_combo ''Tom'' ''Brady'')) example_dl = Some example_qb \<and>
   find_df (name_combo ''Tom'' ''Brady'') None example_dl = Some example_qb \<and>
   CalculatePlayerPoints (PlayerProfile_init ''Tom Brady'') example_dl LeagueSettings_init
     False True =
     (case points_series (name_combo ''Tom'' ''Brady'') example_qb LeagueSettings_init
             False True of
        Inl e \<Rightarrow> Inl e
      | Inr df_output \<Rightarrow> Inr ((PlayerProfile_init ''Tom Brady'')\<lparr>league_points := Some df_output\<rparr>))"
proof -
  have h: "dl_list (LoadNflData (FFBAnalyzer_init None LeagueSettings_init) example_data)
             = Has example_dl"
    by (simp add: LoadNflData_def example_data_def example_dl_def)
  from C1_table_selection [OF split_tom_brady h, of LeagueSettings_init False True]
  have "case List.find (name_check (name_combo ''Tom'' ''Brady'')) example_dl of
          None \<Rightarrow>
            find_df (name_combo ''Tom'' ''Brady'') None example_dl
              = Some (csv_oline example_data) \<and>
            CalculatePlayerPoints (PlayerProfile_init ''Tom Brady'') example_dl
              LeagueSettings_init False True
              = Inr ((PlayerProfile_init ''Tom Brady'')\<lparr>league_points := Some []\<rparr>)
        | Some df \<Rightarrow>
            find_df (name_combo ''Tom'' ''Brady'') None example_dl = Some df \<and>
            CalculatePlayerPoints (PlayerProfile_init ''Tom Brady'') example_dl
              LeagueSettings_init False True =
              (case points_series (name_combo ''Tom'' ''Brady'') df LeagueSettings_init
                      False True of
                 Inl e \<Rightarrow> Inl e
               | Inr df_output \<Rightarrow>
                   Inr ((PlayerProfile_init ''Tom Brady'')\<lparr>league_points := Some df_output\<rparr>))"
    by (rule conjunct2)
  then have "find_df (name_combo ''Tom'' ''Brady'') None example_dl = Some example_qb \<and>
     CalculatePlayerPoints (PlayerProfile_init ''Tom Brady'') example_dl LeagueSettings_init
       False True =
       (case points_series (name_combo ''Tom'' ''Brady'') example_qb LeagueSettings_init
               False True of
          Inl e \<Rightarrow> Inl e
        | Inr df_output \<Rightarrow>
            Inr ((PlayerProfile_init ''Tom Brady'')\<lparr>league_points := Some df_output\<rparr>))"
    unfolding find_brady by (simp only: option.case)
  with split_tom_brady h find_brady show ?thesis by blast
qed

text \<open>
  The claim as stated fails on Joe Nobody: no frame of the loaded example has the
  name, and the call returns a profile with the empty series instead of failing.
\<close>

theorem C1_no_failure_counterexample:
  "dl_list (FFBAnalyzer_init (Some example_data) LeagueSettings_init) = Has example_dl \<and>
   List.find (name_check (name_combo ''Joe'' ''Nobody'')) example_dl = None \<and>
   CalculatePlayerPoints (PlayerProfile_init ''Joe Nobody'') example_dl LeagueSettings_init
     False True = Inr \<lparr>name = ''Joe Nobody'', league_points = Some []\<rparr> \<and>
   \<not> isl (CalculatePlayerPoints (PlayerProfile_init ''Joe Nobody'') example_dl
            LeagueSettings_init False True)"
proof -
  have a: "dl_list (FFBAnalyzer_init (Some example_data) LeagueSettings_init) = Has example_dl"
    using example_analyzer_eq by (simp add: example_analyzer_def)
  have b: "\<not> name_check (name_combo ''Joe'' ''Nobody'') example_qb"
    by code_simp
  have c: "List.find (name_check (name_combo ''Joe'' ''Nobody'')) example_dl = None"
    by (simp add: example_dl_def b name_check_empty_frame)
  have d: "CalculatePlayerPoints (PlayerProfile_init ''Joe Nobody'') example_dl LeagueSettings_init
     False True = Inr \<lparr>name = ''Joe Nobody'', league_points = Some []\<rparr>"
    by code_simp
  from a c d show ?thesis by simp
qed


section \<open>The yearly sums\<close>













end
